theory Spec2Isabelle
  imports Complex_Main "HOL-Library.Word"
begin

section \<open>Poison Game front end: board rules\<close>

text \<open>
  The front end of the Poison Game keeps a private board of 15 tiles. A tile is a
  JavaScript number of type \<open>TileType = 0 | 1 | 2\<close> (Normal, Poison, Shield). At run
  time a board read back from local storage is any array of numbers, and
  \<open>validateBoard\<close> checks the values itself, so a tile is modelled as an \<open>int\<close>.
\<close>

type_synonym tile = int
type_synonym board = "tile list"

subsection \<open>Decimal rendering of a count inside a template string\<close>

definition digit_char :: "nat \<Rightarrow> char" where
  "digit_char d = ''0123456789'' ! d"

fun show_nat :: "nat \<Rightarrow> string" where
  "show_nat n = (if n < 10 then [digit_char n] else show_nat (n div 10) @ [digit_char (n mod 10)])"

declare show_nat.simps [simp del]

subsection \<open>validateBoard (zkPoisonEngine.ts)\<close>

text \<open>
  \<^verbatim>\<open>
  export const validateBoard = (tiles: TileType[]): { valid: boolean; error?: string } => {
    if (tiles.length !== 15) return { valid: false, error: `Need 15 tiles, got ${tiles.length}` };
    if (tiles.some(t => t !== 0 && t !== 1 && t !== 2)) return { valid: false, error: 'Invalid tile values' };
    const poisons = tiles.filter(t => t === 1).length;
    const shields = tiles.filter(t => t === 2).length;
    if (poisons !== 2) return { valid: false, error: `Need exactly 2 poison tiles, got ${poisons}` };
    if (shields !== 1) return { valid: false, error: `Need exactly 1 shield tile, got ${shields}` };
    return { valid: true };
  };
  \<close>
  The second copy of the engine has the same function with shorter messages
  (\<open>Need 2 poison, got n\<close> and \<open>Need 1 shield, got n\<close>); it is \<open>validateBoard2\<close>.
\<close>

record validation =
  valid :: bool
  error :: "string option"

definition poisons_of :: "board \<Rightarrow> nat" where
  "poisons_of tiles = length (filter (\<lambda>t. t = 1) tiles)"

definition shields_of :: "board \<Rightarrow> nat" where
  "shields_of tiles = length (filter (\<lambda>t. t = 2) tiles)"

definition invalid_tile :: "tile \<Rightarrow> bool" where
  "invalid_tile t = (t \<noteq> 0 \<and> t \<noteq> 1 \<and> t \<noteq> 2)"

definition validateBoard :: "board \<Rightarrow> validation" where
  "validateBoard tiles =
     (if length tiles \<noteq> 15
        then \<lparr>valid = False, error = Some (''Need 15 tiles, got '' @ show_nat (length tiles))\<rparr>
      else if list_ex invalid_tile tiles
        then \<lparr>valid = False, error = Some ''Invalid tile values''\<rparr>
      else if poisons_of tiles \<noteq> 2
        then \<lparr>valid = False,
              error = Some (''Need exactly 2 poison tiles, got '' @ show_nat (poisons_of tiles))\<rparr>
      else if shields_of tiles \<noteq> 1
        then \<lparr>valid = False,
              error = Some (''Need exactly 1 shield tile, got '' @ show_nat (shields_of tiles))\<rparr>
      else \<lparr>valid = True, error = None\<rparr>)"

definition validateBoard2 :: "board \<Rightarrow> validation" where
  "validateBoard2 tiles =
     (if length tiles \<noteq> 15
        then \<lparr>valid = False, error = Some (''Need 15 tiles, got '' @ show_nat (length tiles))\<rparr>
      else if list_ex invalid_tile tiles
        then \<lparr>valid = False, error = Some ''Invalid tile values''\<rparr>
      else if poisons_of tiles \<noteq> 2
        then \<lparr>valid = False, error = Some (''Need 2 poison, got '' @ show_nat (poisons_of tiles))\<rparr>
      else if shields_of tiles \<noteq> 1
        then \<lparr>valid = False, error = Some (''Need 1 shield, got '' @ show_nat (shields_of tiles))\<rparr>
      else \<lparr>valid = True, error = None\<rparr>)"

subsection \<open>The board editor's tile click (PoisonGameGame.tsx, commit phase)\<close>

text \<open>
  \<^verbatim>\<open>
  const poisonCount = myBoard.filter(t => t === 1).length;
  const shieldCount = myBoard.filter(t => t === 2).length;
  ...
  {myBoard.map((tile, idx) => (
    <button key={idx} ...
      onClick={() => {
        const next = [...myBoard] as TileType[];
        if (next[idx] === activeTool) { next[idx] = 0; }
        else {
          if (activeTool === 1 && poisonCount >= 2 && next[idx] !== 1) return;
          if (activeTool === 2 && shieldCount >= 1 && next[idx] !== 2) return;
          next[idx] = activeTool;
        }
        setMyBoard(next);
      }}
  \<close>
  One handler exists per index of the rendered board, so a handler's \<open>idx\<close> is below the
  length of the board it closes over; there is no button, hence no result, for any other
  index. The result is the board held in \<open>myBoard\<close> after the handler has run: an early
  \<open>return\<close> leaves it as it was.
\<close>

definition tileClick :: "board \<Rightarrow> tile \<Rightarrow> nat \<Rightarrow> board option" where
  "tileClick myBoard activeTool idx =
     (if idx < length myBoard then
        (let next = myBoard;
             poisonCount = poisons_of myBoard;
             shieldCount = shields_of myBoard
         in if next ! idx = activeTool then Some (next[idx := 0])
            else if activeTool = 1 \<and> poisonCount \<ge> 2 \<and> next ! idx \<noteq> 1 then Some myBoard
            else if activeTool = 2 \<and> shieldCount \<ge> 1 \<and> next ! idx \<noteq> 2 then Some myBoard
            else Some (next[idx := activeTool]))
      else None)"

definition tiles_ok :: "board \<Rightarrow> bool" where
  "tiles_ok tiles = list_all (\<lambda>t. t = 0 \<or> t = 1 \<or> t = 2) tiles"

definition within_bounds :: "board \<Rightarrow> bool" where
  "within_bounds tiles = (tiles_ok tiles \<and> poisons_of tiles \<le> 2 \<and> shields_of tiles \<le> 1)"

section \<open>Turn sub-state and the action lock (PoisonGameGame.tsx)\<close>

text \<open>
  The fields of the contract's \<open>GameState\<close> (bindings.ts) that the turn logic and the
  score bar read. \<open>u32\<close> is a JavaScript number in the bindings; turn and winner are
  0, 1 or 2.
\<close>

record revealedTile =
  tile_index :: nat
  tile_type :: nat

record gameState =
  current_turn :: nat
  has_pending_attack :: bool
  p1_revealed :: "revealedTile list"
  p2_revealed :: "revealedTile list"
  pending_attack_tile :: nat
  winner :: nat

text \<open>
  \<^verbatim>\<open>
  const isMyAttackTurn =
    myPlayerNum !== 0 &&
    !gameState?.has_pending_attack &&
    gameState?.current_turn === myPlayerNum;

  const isMyDefenseTurn =
    myPlayerNum !== 0 &&
    gameState?.has_pending_attack === true &&
    gameState?.current_turn !== myPlayerNum;
  \<close>
  \<open>gameState\<close> is \<open>GameState | null\<close>: on \<open>null\<close> the optional chain gives
  \<open>undefined\<close>, which is falsy, differs from \<open>true\<close> and differs from every number.
\<close>

definition isMyAttackTurn :: "nat \<Rightarrow> gameState option \<Rightarrow> bool" where
  "isMyAttackTurn myPlayerNum gameState =
     (myPlayerNum \<noteq> 0
      \<and> \<not> (case gameState of None \<Rightarrow> False | Some g \<Rightarrow> has_pending_attack g)
      \<and> (case gameState of None \<Rightarrow> False | Some g \<Rightarrow> current_turn g = myPlayerNum))"

definition isMyDefenseTurn :: "nat \<Rightarrow> gameState option \<Rightarrow> bool" where
  "isMyDefenseTurn myPlayerNum gameState =
     (myPlayerNum \<noteq> 0
      \<and> (case gameState of None \<Rightarrow> False | Some g \<Rightarrow> has_pending_attack g = True)
      \<and> (case gameState of None \<Rightarrow> True | Some g \<Rightarrow> current_turn g \<noteq> myPlayerNum))"

text \<open>
  The play phase renders three conditional blocks, in this order:
  \<^verbatim>\<open>
  {isMyAttackTurn && ( <div className="attack-section"> ... )}
  {isMyDefenseTurn && ( <div className="defense-section"> ... )}
  {!isMyAttackTurn && !isMyDefenseTurn && ( <div className="waiting-state"> ... )}
  \<close>
\<close>

datatype subState = MyTurnToAttack | MyTurnToDefend | Waiting

definition playSections :: "nat \<Rightarrow> gameState option \<Rightarrow> subState list" where
  "playSections myPlayerNum gameState =
     (if isMyAttackTurn myPlayerNum gameState then [MyTurnToAttack] else [])
     @ (if isMyDefenseTurn myPlayerNum gameState then [MyTurnToDefend] else [])
     @ (if \<not> isMyAttackTurn myPlayerNum gameState \<and> \<not> isMyDefenseTurn myPlayerNum gameState
        then [Waiting] else [])"

text \<open>
  \<^verbatim>\<open>
  const actionLock = useRef(false);
  const isBusy = loading || isCommitting || isResponding;

  const runAction = async (action: () => Promise<void>) => {
    if (actionLock.current || isBusy) return;
    actionLock.current = true;
    try { await action(); }
    finally { actionLock.current = false; }
  };
  \<close>
  The component is single-threaded and cooperative: \<open>runAction\<close> runs up to the
  \<open>await\<close>, other handlers may run while the action is in flight, and the
  \<open>finally\<close> block runs when the action's promise settles. The model has one step for
  the call (up to the \<open>await\<close>) and one for the settlement. \<open>started\<close> logs the actions
  whose body was invoked; there is no other place where an action could be kept. (The
  other copy of the component adds \<open>quickstartLoading\<close> to \<open>isBusy\<close>.)
\<close>

record 'a ui =
  actionLock :: bool
  loading :: bool
  isCommitting :: bool
  isResponding :: bool
  started :: "'a list"

definition isBusy :: "'a ui \<Rightarrow> bool" where
  "isBusy s = (loading s \<or> isCommitting s \<or> isResponding s)"

datatype call_outcome = ReturnedAtOnce | AwaitingAction

datatype 'e settled = Fulfilled | Rejected 'e

definition runAction_call :: "'a ui \<Rightarrow> 'a \<Rightarrow> call_outcome \<times> 'a ui" where
  "runAction_call s action =
     (if actionLock s \<or> isBusy s then (ReturnedAtOnce, s)
      else (AwaitingAction, s\<lparr>actionLock := True, started := started s @ [action]\<rparr>))"

definition runAction_settle :: "'a ui \<Rightarrow> 'e settled \<Rightarrow> 'e settled \<times> 'a ui" where
  "runAction_settle s outcome = (outcome, s\<lparr>actionLock := False\<rparr>)"

section \<open>Session identifiers (GameLobby.tsx, PoisonGameGame.tsx)\<close>

subsection \<open>The product of two doubles\<close>

text \<open>
  \<open>Math.random()\<close> is an IEEE double and so is its product with a constant: the exact
  product is rounded to the nearest double, ties to even, before \<open>Math.floor\<close> sees
  it. \<open>to_double x\<close> is that rounding for \<open>0 \<le> x < 2^53\<close>: the value is scaled by
  \<open>2^t\<close> into \<open>[2^52, 2^53)\<close>, rounded to an integer and scaled back. (Below the normal
  range a double has fewer bits, but there \<open>x\<close> and its rounding are both below 1, so the
  floor is 0 either way.)
\<close>

function bits :: "int \<Rightarrow> nat" where
  "bits n = (if n \<le> 0 then 0 else Suc (bits (n div 2)))"
  by pat_completeness auto
termination
  by (relation "measure nat") auto

declare bits.simps [simp del]

definition half_even :: "real \<Rightarrow> int" where
  "half_even y =
     (let f = \<lfloor>y\<rfloor>; d = y - of_int f
      in if d < 1 / 2 then f else if d > 1 / 2 then f + 1 else if even f then f else f + 1)"

definition binade_shift :: "real \<Rightarrow> nat" where
  "binade_shift x =
     (if x \<ge> 1 then 53 - bits \<lfloor>x\<rfloor> else 52 + bits (\<lceil>1 / x\<rceil> - 1))"

definition to_double :: "real \<Rightarrow> real" where
  "to_double x =
     (if x \<le> 0 then 0
      else of_int (half_even (x * 2 ^ binade_shift x)) / 2 ^ binade_shift x)"

subsection \<open>createRandomSessionId and handleCreateGame\<close>

text \<open>
  \<^verbatim>\<open>
  const createRandomSessionId = (): number => {
    if (typeof crypto !== 'undefined' && crypto.getRandomValues) {
      let value = 0;
      const buffer = new Uint32Array(1);
      while (value === 0) { crypto.getRandomValues(buffer); value = buffer[0]; }
      return value;
    }
    return (Math.floor(Math.random() * 0xffffffff) >>> 0) || 1;
  };
  \<close>
  The random source is an input of the model: \<open>draws i\<close> is the 32-bit word that the
  \<open>i\<close>-th call of \<open>crypto.getRandomValues\<close> writes, and \<open>r\<close> is the value of
  \<open>Math.random()\<close>, a double with \<open>0 \<le> r < 1\<close>. The loop has no bound, so it is a
  partial function: \<open>None\<close> is the run that draws zero for ever.
\<close>

partial_function (option) draw_nonzero :: "(nat \<Rightarrow> 32 word) \<Rightarrow> nat \<Rightarrow> 32 word option" where
  "draw_nonzero draws i =
     (let value = draws i in if value = 0 then draw_nonzero draws (Suc i) else Some value)"

declare draw_nonzero.simps [code]

definition createRandomSessionId :: "bool \<Rightarrow> (nat \<Rightarrow> 32 word) \<Rightarrow> real \<Rightarrow> int option" where
  "createRandomSessionId cryptoAvailable draws r =
     (if cryptoAvailable then map_option uint (draw_nonzero draws 0)
      else (let v = \<lfloor>to_double (r * 4294967295)\<rfloor> mod 4294967296
            in Some (if v = 0 then 1 else v)))"

text \<open>
  The lobby of \<open>Stellar-Game-Studio/poison-game-frontend\<close> does not call it:
  \<^verbatim>\<open>
  const handleCreateGame = async () => {
    ...
      const sessionId = Math.floor(Math.random() * 1000000000);
      const authXdr = await poisonGameService.prepareStartGame(sessionId, myAddress, ...);
  \<close>
  The argument is the double that \<open>Math.random()\<close> returned.
\<close>

definition handleCreateGame_sessionId :: "real \<Rightarrow> int" where
  "handleCreateGame_sessionId r = \<lfloor>to_double (r * 1000000000)\<rfloor>"

section \<open>The proof engine (zkPoisonEngine.ts)\<close>

text \<open>
  The engine wraps the proving toolkit (Noir, the UltraHonk backend, Barretenberg). The
  toolkit is outside this repository; it is a parameter of the model: whether and where
  \<open>_doInit\<close> throws (the step, the thrown value's \<open>message\<close>, empty when it has none, and
  its \<open>String(err)\<close>), what \<open>noir.execute\<close> returns for a set of circuit inputs and what
  \<open>backend.generateProof\<close> returns for a witness. Every call of the toolkit is logged
  as an effect, so that "before any witness or proof is produced" can be stated.
\<close>

type_synonym bytes = "8 word list"

datatype zk_error =
    InitFailed string
  | EngineNotInitialised
  | Need15Tiles
  | InvalidTileIndex
  | TileTypeMismatch
  | ExecuteFailed string
  | GenerateProofFailed string
  | WrongProofSize nat

record circuit_inputs =
  board_layout :: board
  salt_input :: nat
  commitment_input :: bytes
  tile_index_input :: int
  tile_type_result :: tile

datatype init_step = AtFetch | AtNoirNew | AtNoirInit | AtBackend | AtBarretenberg

record 'w toolkit =
  doInit_throws :: "(init_step \<times> string \<times> string) option"
  noir_execute :: "circuit_inputs \<Rightarrow> string + 'w"
  backend_generateProof :: "'w \<Rightarrow> string + bytes"

datatype 'w zk_effect = LoadCircuit | Execute circuit_inputs | GenerateProof 'w

text \<open>
  The private fields of \<open>ZkProofEngine\<close>. An object field is modelled by whether it is
  non-null. \<open>initializing\<close> is the promise \<open>_initializing\<close> once settled: \<open>None\<close> is
  \<open>null\<close>, \<open>Some None\<close> a fulfilled promise, \<open>Some (Some m)\<close> one rejected with
  message \<open>m\<close>.
\<close>

record engine =
  noir :: bool
  backend :: bool
  bb :: bool
  circuit :: bool
  initialized :: bool
  initializing :: "string option option"
  last_error :: "string option"

text \<open>
  \<^verbatim>\<open>
  private async _doInit(): Promise<void> {
    try {
      const resp = await fetch('/circuit/poison_game.json');
      if (!resp.ok) throw new Error(`Circuit load failed: ...`);
      this.circuit = (await resp.json()) as CompiledCircuit;
      this.noir = new Noir(this.circuit);
      await this.noir.init();
      this.backend = new UltraHonkBackend(this.circuit.bytecode, { threads: 1 });
      this.bb = await Barretenberg.new({ threads: 1 });
      this._initialized = true;
      this._error = null;
    } catch (err: any) {
      this._error = err.message || String(err);
      throw err;
    }
  }
  \<close>
\<close>

definition message_or_String :: "string \<Rightarrow> string \<Rightarrow> string" where
  "message_or_String m str = (if m = [] then str else m)"

definition doInit :: "'w toolkit \<Rightarrow> engine \<Rightarrow> string option \<times> engine" where
  "doInit tk e =
     (case doInit_throws tk of
        None \<Rightarrow>
          (None, e\<lparr>circuit := True, noir := True, backend := True, bb := True,
                   initialized := True, last_error := None\<rparr>)
      | Some (AtFetch, m, str) \<Rightarrow> (Some m, e\<lparr>last_error := Some (message_or_String m str)\<rparr>)
      | Some (AtNoirNew, m, str) \<Rightarrow>
          (Some m, e\<lparr>circuit := True, last_error := Some (message_or_String m str)\<rparr>)
      | Some (AtNoirInit, m, str) \<Rightarrow>
          (Some m, e\<lparr>circuit := True, noir := True,
                    last_error := Some (message_or_String m str)\<rparr>)
      | Some (AtBackend, m, str) \<Rightarrow>
          (Some m, e\<lparr>circuit := True, noir := True,
                    last_error := Some (message_or_String m str)\<rparr>)
      | Some (AtBarretenberg, m, str) \<Rightarrow>
          (Some m, e\<lparr>circuit := True, noir := True, backend := True,
                    last_error := Some (message_or_String m str)\<rparr>))"

text \<open>
  \<^verbatim>\<open>
  async init(): Promise<void> {
    if (this._initialized) return;
    if (this._initializing) return this._initializing;
    this._initializing = this._doInit();
    return this._initializing;
  }
  \<close>
\<close>

definition init :: "'w toolkit \<Rightarrow> engine \<Rightarrow> string option \<times> engine \<times> 'w zk_effect list" where
  "init tk e =
     (if initialized e then (None, e, [])
      else case initializing e of
             Some settled \<Rightarrow> (settled, e, [])
           | None \<Rightarrow> (case doInit tk e of
                        (r, e') \<Rightarrow> (r, e'\<lparr>initializing := Some r\<rparr>, [LoadCircuit])))"

text \<open>
  \<open>tiles[tileIndex]\<close> in JavaScript: \<open>undefined\<close> outside the array. \<open>tileIndex\<close> is
  the \<open>u32\<close> \<open>pending_attack_tile\<close> of the contract state, an integer.
\<close>

definition js_index :: "'a list \<Rightarrow> int \<Rightarrow> 'a option" where
  "js_index xs i = (if 0 \<le> i \<and> i < int (length xs) then Some (xs ! nat i) else None)"

text \<open>
  \<^verbatim>\<open>
  async generateTileProof(tiles, salt, commitment, tileIndex, tileType): Promise<Uint8Array> {
    await this.init();
    if (!this.noir || !this.backend) throw new Error('Engine not initialised');
    if (tiles.length !== 15) throw new Error('Need 15 tiles');
    if (tileIndex < 0 || tileIndex > 14) throw new Error('Invalid tile index');
    if (tiles[tileIndex] !== tileType) throw new Error('Tile type mismatch - check board data');
    const inputs = { board_layout: ..., salt: ..., commitment: ..., tile_index: tileIndex,
                     tile_type_result: tileType };
    const { witness } = await this.noir.execute(inputs);
    const proofData = await this.backend.generateProof(witness, { keccak: true });
    if (proofData.proof.length !== 14592) {
      throw new Error(`Wrong proof size: ${proofData.proof.length} (expected 14592). ...`);
    }
    return proofData.proof;
  }
  \<close>
  The hexadecimal rendering of the inputs is left to the toolkit parameter. The second
  copy of the engine (\<open>generateTileProof2\<close>) differs at the end only: a proof of another
  size is logged with \<open>console.warn\<close> and returned.
\<close>

definition generateTileProof ::
  "'w toolkit \<Rightarrow> engine \<Rightarrow> board \<Rightarrow> nat \<Rightarrow> bytes \<Rightarrow> int \<Rightarrow> tile
     \<Rightarrow> (zk_error + bytes) \<times> engine \<times> 'w zk_effect list" where
  "generateTileProof tk e tiles salt commitment tileIndex tileType =
     (case init tk e of
        (Some m, e', fx) \<Rightarrow> (Inl (InitFailed m), e', fx)
      | (None, e', fx) \<Rightarrow>
          if \<not> noir e' \<or> \<not> backend e' then (Inl EngineNotInitialised, e', fx)
          else if length tiles \<noteq> 15 then (Inl Need15Tiles, e', fx)
          else if tileIndex < 0 \<or> tileIndex > 14 then (Inl InvalidTileIndex, e', fx)
          else if js_index tiles tileIndex \<noteq> Some tileType then (Inl TileTypeMismatch, e', fx)
          else
            (let inputs = \<lparr>board_layout = tiles, salt_input = salt,
                            commitment_input = commitment, tile_index_input = tileIndex,
                            tile_type_result = tileType\<rparr>
             in case noir_execute tk inputs of
                  Inl m \<Rightarrow> (Inl (ExecuteFailed m), e', fx @ [Execute inputs])
                | Inr witness \<Rightarrow>
                    (case backend_generateProof tk witness of
                       Inl m \<Rightarrow> (Inl (GenerateProofFailed m), e',
                                  fx @ [Execute inputs, GenerateProof witness])
                     | Inr proof \<Rightarrow>
                         if length proof \<noteq> 14592
                         then (Inl (WrongProofSize (length proof)), e',
                               fx @ [Execute inputs, GenerateProof witness])
                         else (Inr proof, e', fx @ [Execute inputs, GenerateProof witness]))))"

definition generateTileProof2 ::
  "'w toolkit \<Rightarrow> engine \<Rightarrow> board \<Rightarrow> nat \<Rightarrow> bytes \<Rightarrow> int \<Rightarrow> tile
     \<Rightarrow> (zk_error + bytes) \<times> engine \<times> 'w zk_effect list" where
  "generateTileProof2 tk e tiles salt commitment tileIndex tileType =
     (case init tk e of
        (Some m, e', fx) \<Rightarrow> (Inl (InitFailed m), e', fx)
      | (None, e', fx) \<Rightarrow>
          if \<not> noir e' \<or> \<not> backend e' then (Inl EngineNotInitialised, e', fx)
          else if length tiles \<noteq> 15 then (Inl Need15Tiles, e', fx)
          else if tileIndex < 0 \<or> tileIndex > 14 then (Inl InvalidTileIndex, e', fx)
          else if js_index tiles tileIndex \<noteq> Some tileType then (Inl TileTypeMismatch, e', fx)
          else
            (let inputs = \<lparr>board_layout = tiles, salt_input = salt,
                            commitment_input = commitment, tile_index_input = tileIndex,
                            tile_type_result = tileType\<rparr>
             in case noir_execute tk inputs of
                  Inl m \<Rightarrow> (Inl (ExecuteFailed m), e', fx @ [Execute inputs])
                | Inr witness \<Rightarrow>
                    (case backend_generateProof tk witness of
                       Inl m \<Rightarrow> (Inl (GenerateProofFailed m), e',
                                  fx @ [Execute inputs, GenerateProof witness])
                     | Inr proof \<Rightarrow>
                         (Inr proof, e', fx @ [Execute inputs, GenerateProof witness]))))"

fun produces :: "'w zk_effect \<Rightarrow> bool" where
  "produces LoadCircuit = False"
| "produces (Execute _) = True"
| "produces (GenerateProof _) = True"

section \<open>The contract service (poisonGameService.ts)\<close>

subsection \<open>Authorization entries and the boundary of the service\<close>

text \<open>
  The parts of a \<open>SorobanAuthorizationEntry\<close> that the service reads: the credentials
  (of the source account, or of an address with the ledger up to which the signature is
  valid and the signature) and the root invocation. An accessor of the wrong arm of an
  XDR union throws; each such throw is a branch of the model.
  \<open>AddressCredentials a v s\<close> holds the address, \<open>signatureExpirationLedger\<close> and the
  signature (\<open>None\<close> while unsigned); \<open>ScI128 hi lo\<close> holds the two 64-bit halves of an
  \<open>i128\<close>; \<open>ContractFn name args\<close> is an invocation of a contract function.
\<close>

type_synonym address = string

datatype scVal = ScU32 "32 word" | ScI128 "64 word" "64 word" | ScOther

datatype sorobanCredentials =
    SourceAccount
  | AddressCredentials address nat "string option"

datatype hostFunction = ContractFn string "scVal list" | OtherFunction

record authEntry =
  credentials :: sorobanCredentials
  rootInvocation :: hostFunction

datatype contract_call =
    StartGame nat address address int int
  | CommitBoard nat address bytes
  | Attack nat address int
  | RespondToAttack nat address tile bytes

record assembledTx =
  invoked :: contract_call
  publicKey :: address
  simAuth :: "authEntry list option"

datatype txStatus = SUCCESS | FAILED | NOT_FOUND

record sentTx =
  sendHash :: "string option"
  getStatus :: "txStatus option"
  diagnostics :: string

datatype parse_failure =
    BadXdr
  | NotAddressCredentials
  | NotContractFn
  | UnexpectedFunction string
  | ExpectedTwoArgs nat
  | NotU32
  | NotI128

datatype svc_error =
    Thrown string
  | FailedToParse parse_failure
  | CannotPlayAgainstYourself
  | NoAuthEntriesInSimulation
  | NoAuthEntryForPlayer1 address
  | SignAuthEntryNotAvailable
  | FailedToSign string
  | HandshakeExpired
  | BoardHashMustBe32 nat
  | ProofMustBe14592 nat
  | NoTransactionHash
  | CommitFailed string
  | NotConfirmedAfterPolling
  | TransactionFailed string

text \<open>
  What the service calls and does not define: the Stellar SDK (XDR coding,
  \<open>authorizeEntry\<close>, the generated contract client that builds and simulates a call,
  \<open>needsNonInvokerSigningBy\<close>, \<open>signAuthEntries\<close>), the RPC server, and the helpers and
  constants that this repository imports from \<open>@/utils\<close> (\<open>calculateValidUntilLedger\<close>,
  \<open>signAndSendViaLaunchtube\<close>, the TTL constants). They are fields of one environment.
  \<open>Inl\<close> stands for a thrown error. \<open>latestLedger\<close> is the ledger sequence at the time
  of the call.
\<close>

record env =
  fromXDR :: "string \<Rightarrow> authEntry option"
  toXDR :: "authEntry \<Rightarrow> string"
  authorizeEntry :: "authEntry \<Rightarrow> (string \<Rightarrow> svc_error + string) \<Rightarrow> nat \<Rightarrow> svc_error + authEntry"
  simulate :: "address \<Rightarrow> contract_call \<Rightarrow> string + assembledTx"
  needsNonInvokerSigningBy :: "assembledTx \<Rightarrow> address list"
  signAuthEntries :: "assembledTx \<Rightarrow> nat \<Rightarrow> string + assembledTx"
  calculateValidUntilLedger :: "nat \<Rightarrow> string + nat"
  signAndSendViaLaunchtube :: "assembledTx \<Rightarrow> nat \<Rightarrow> nat \<Rightarrow> string + sentTx"
  getTransaction :: "string \<Rightarrow> nat \<Rightarrow> string + txStatus"
  latestLedger :: nat
  DEFAULT_AUTH_TTL_MINUTES :: nat
  MULTI_SIG_AUTH_TTL_MINUTES :: nat
  DEFAULT_TIMEOUT :: nat

text \<open>
  A signer is \<open>Pick<ClientOptions, 'signTransaction' | 'signAuthEntry'>\<close>; \<open>signAuthEntry\<close>
  may be absent. It answers with \<open>{ signedAuthEntry, error? }\<close>: \<open>Inl\<close> is the message
  of \<open>error\<close>.
\<close>

record signer =
  signAuthEntry :: "(string \<Rightarrow> address \<Rightarrow> string + string) option"

datatype effect =
    Simulated contract_call
  | LedgerRead
  | Authorized authEntry
  | Injected
  | AuthEntriesSigned
  | Submitted contract_call
  | Polled string
  | Warned string

subsection \<open>prepareStartGame\<close>

text \<open>
  \<^verbatim>\<open>
  let player1AuthEntry: xdr.SorobanAuthorizationEntry | null = null;
  for (let i = 0; i < authEntries.length; i++) {
    try {
      const addr = Address.fromScAddress(
        authEntries[i].credentials().address().address()
      ).toString();
      if (addr === player1) {
        player1AuthEntry = authEntries[i];
        break;
      }
    } catch { /* not address-based, skip */ }
  }
  \<close>
\<close>

definition entry_address :: "authEntry \<Rightarrow> address option" where
  "entry_address e =
     (case credentials e of SourceAccount \<Rightarrow> None | AddressCredentials a _ _ \<Rightarrow> Some a)"

fun player1AuthEntry_loop :: "authEntry list \<Rightarrow> address \<Rightarrow> authEntry option" where
  "player1AuthEntry_loop [] player1 = None"
| "player1AuthEntry_loop (e # es) player1 =
     (case credentials e of
        SourceAccount \<Rightarrow> player1AuthEntry_loop es player1
      | AddressCredentials addr _ _ \<Rightarrow>
          if addr = player1 then Some e else player1AuthEntry_loop es player1)"

text \<open>
  The callback handed to \<open>authorizeEntry\<close>:
  \<^verbatim>\<open>
  async (preimage) => {
    const signResult = await player1Signer.signAuthEntry!(
      preimage.toXDR('base64'), { networkPassphrase: NETWORK_PASSPHRASE, address: player1 });
    if (signResult.error) {
      throw new Error(`Failed to sign auth entry: ${signResult.error.message}`);
    }
    return Buffer.from(signResult.signedAuthEntry, 'base64');
  }
  \<close>
\<close>

definition signCallback ::
  "(string \<Rightarrow> address \<Rightarrow> string + string) \<Rightarrow> address \<Rightarrow> string \<Rightarrow> svc_error + string" where
  "signCallback sign player1 preimage =
     (case sign preimage player1 of Inl m \<Rightarrow> Inl (FailedToSign m) | Inr signedAuthEntry \<Rightarrow> Inr signedAuthEntry)"

text \<open>
  \<^verbatim>\<open>
  async prepareStartGame(sessionId, player1, player2, player1Points, player2Points,
                         player1Signer, authTtlMinutes?): Promise<string> {
    const buildClient = new PoisonGameClient({ ..., publicKey: player2 });
    const tx = await buildClient.start_game({ session_id: sessionId, player1, player2,
      player1_points: player1Points, player2_points: player2Points }, DEFAULT_METHOD_OPTIONS);
    if (!tx.simulationData?.result?.auth) {
      throw new Error('No auth entries found in simulation');
    }
    const authEntries = tx.simulationData.result.auth;
    ... the loop above ...
    if (!player1AuthEntry) {
      throw new Error(`No auth entry found for Player 1 (${player1})`);
    }
    const validUntilLedgerSeq = await calculateValidUntilLedger(
      RPC_URL, authTtlMinutes ?? MULTI_SIG_AUTH_TTL_MINUTES);
    if (!player1Signer.signAuthEntry) {
      throw new Error('signAuthEntry not available on Player 1 signer');
    }
    const signedAuthEntry = await authorizeEntry(
      player1AuthEntry, <the callback>, validUntilLedgerSeq, NETWORK_PASSPHRASE);
    return signedAuthEntry.toXDR('base64');
  }
  \<close>
\<close>

definition prepareStartGame ::
  "env \<Rightarrow> nat \<Rightarrow> address \<Rightarrow> address \<Rightarrow> int \<Rightarrow> int \<Rightarrow> signer \<Rightarrow> nat option
     \<Rightarrow> (svc_error + string) \<times> effect list" where
  "prepareStartGame E sessionId player1 player2 player1Points player2Points player1Signer
       authTtlMinutes =
     (let c = StartGame sessionId player1 player2 player1Points player2Points in
      case simulate E player2 c of
        Inl m \<Rightarrow> (Inl (Thrown m), [Simulated c])
      | Inr tx \<Rightarrow>
          (case simAuth tx of
             None \<Rightarrow> (Inl NoAuthEntriesInSimulation, [Simulated c])
           | Some authEntries \<Rightarrow>
               (case player1AuthEntry_loop authEntries player1 of
                  None \<Rightarrow> (Inl (NoAuthEntryForPlayer1 player1), [Simulated c])
                | Some player1AuthEntry \<Rightarrow>
                    (case calculateValidUntilLedger E
                            (case authTtlMinutes of None \<Rightarrow> MULTI_SIG_AUTH_TTL_MINUTES E
                                                   | Some t \<Rightarrow> t) of
                       Inl m \<Rightarrow> (Inl (Thrown m), [Simulated c, LedgerRead])
                     | Inr validUntilLedgerSeq \<Rightarrow>
                         (case signAuthEntry player1Signer of
                            None \<Rightarrow> (Inl SignAuthEntryNotAvailable, [Simulated c, LedgerRead])
                          | Some sign \<Rightarrow>
                              (case authorizeEntry E player1AuthEntry
                                      (signCallback sign player1) validUntilLedgerSeq of
                                 Inl err \<Rightarrow>
                                   (Inl err, [Simulated c, LedgerRead, Authorized player1AuthEntry])
                               | Inr signedAuthEntry \<Rightarrow>
                                   (Inr (toXDR E signedAuthEntry),
                                    [Simulated c, LedgerRead, Authorized player1AuthEntry])))))))"

subsection \<open>parseAuthEntry and importAndSignAuthEntry\<close>

text \<open>
  \<^verbatim>\<open>
  parseAuthEntry(authEntryXdr: string) {
    try {
      const authEntry = xdr.SorobanAuthorizationEntry.fromXDR(authEntryXdr, 'base64');
      const player1 = Address.fromScAddress(authEntry.credentials().address().address()).toString();
      const contractFn = authEntry.rootInvocation().function().contractFn();
      const functionName = contractFn.functionName().toString();
      if (functionName !== 'start_game') {
        throw new Error(`Unexpected function in auth entry: ${functionName}`);
      }
      const args = contractFn.args();
      if (args.length !== 2) {
        throw new Error(`Expected 2 args in auth entry, got ${args.length}`);
      }
      const sessionId     = args[0].u32();
      const player1Points = args[1].i128().lo().toBigInt();
      return { sessionId, player1, player1Points, functionName };
    } catch (err: any) {
      throw new Error(`Failed to parse auth entry: ${err.message}`);
    }
  }
  \<close>
\<close>

record gameParams =
  gp_sessionId :: nat
  gp_player1 :: address
  gp_player1Points :: int
  gp_functionName :: string

definition parseAuthEntry :: "env \<Rightarrow> string \<Rightarrow> svc_error + gameParams" where
  "parseAuthEntry E authEntryXdr =
     (case fromXDR E authEntryXdr of
        None \<Rightarrow> Inl (FailedToParse BadXdr)
      | Some entry \<Rightarrow>
          (case credentials entry of
             SourceAccount \<Rightarrow> Inl (FailedToParse NotAddressCredentials)
           | AddressCredentials p1 _ _ \<Rightarrow>
               (case rootInvocation entry of
                  OtherFunction \<Rightarrow> Inl (FailedToParse NotContractFn)
                | ContractFn functionName args \<Rightarrow>
                    if functionName \<noteq> ''start_game''
                      then Inl (FailedToParse (UnexpectedFunction functionName))
                    else if length args \<noteq> 2
                      then Inl (FailedToParse (ExpectedTwoArgs (length args)))
                    else (case args ! 0 of
                            ScU32 sid \<Rightarrow>
                              (case args ! 1 of
                                 ScI128 hi lo \<Rightarrow>
                                   Inr \<lparr>gp_sessionId = unat sid, gp_player1 = p1,
                                        gp_player1Points = uint lo,
                                        gp_functionName = functionName\<rparr>
                               | _ \<Rightarrow> Inl (FailedToParse NotI128))
                          | _ \<Rightarrow> Inl (FailedToParse NotU32)))))"

definition validUntil :: "authEntry \<Rightarrow> nat option" where
  "validUntil e =
     (case credentials e of SourceAccount \<Rightarrow> None | AddressCredentials _ v _ \<Rightarrow> Some v)"

definition lapsed :: "env \<Rightarrow> authEntry \<Rightarrow> bool" where
  "lapsed E e = (case validUntil e of None \<Rightarrow> False | Some v \<Rightarrow> v < latestLedger E)"

text \<open>
  Modelled from the spec: \<open>injectSignedAuthEntry\<close> of \<open>@/utils/authEntryUtils\<close>, code of
  this repository that is not among the source files; only its caller
  \<open>importAndSignAuthEntry\<close> is. The specification of \<open>acceptOpen\<close> says: "Merges the
  initiator's pre-signed authorization into the rebuilt action" and "Fails with
  HandshakeExpired if the artifact's validity window has already lapsed at merge time".
  The merge puts the signed entry in the place of the simulated entry that names the
  same address.
\<close>

definition injectSignedAuthEntry ::
  "env \<Rightarrow> assembledTx \<Rightarrow> string \<Rightarrow> address \<Rightarrow> signer \<Rightarrow> nat \<Rightarrow> svc_error + assembledTx" where
  "injectSignedAuthEntry E tx player1SignedAuthEntryXdr player2Address player2Signer
       validUntilLedgerSeq =
     (case fromXDR E player1SignedAuthEntryXdr of
        None \<Rightarrow> Inl (FailedToParse BadXdr)
      | Some signedEntry \<Rightarrow>
          if lapsed E signedEntry then Inl HandshakeExpired
          else Inr (tx\<lparr>simAuth :=
                 map_option (map (\<lambda>e. if entry_address e = entry_address signedEntry then signedEntry else e))
                   (simAuth tx)\<rparr>))"

text \<open>
  \<^verbatim>\<open>
  async importAndSignAuthEntry(player1SignedAuthEntryXdr, player2Address, player2Points,
                               player2Signer, authTtlMinutes?): Promise<string> {
    const gameParams = this.parseAuthEntry(player1SignedAuthEntryXdr);
    if (player2Address === gameParams.player1) {
      throw new Error('Cannot play against yourself');
    }
    const buildClient = new PoisonGameClient({ ..., publicKey: player2Address });
    const tx = await buildClient.start_game({ session_id: gameParams.sessionId,
      player1: gameParams.player1, player2: player2Address,
      player1_points: gameParams.player1Points, player2_points: player2Points },
      DEFAULT_METHOD_OPTIONS);
    const validUntilLedgerSeq = await calculateValidUntilLedger(
      RPC_URL, authTtlMinutes ?? MULTI_SIG_AUTH_TTL_MINUTES);
    const txWithInjectedAuth = await injectSignedAuthEntry(
      tx, player1SignedAuthEntryXdr, player2Address, player2Signer, validUntilLedgerSeq);
    const player2Client = this.createSigningClient(player2Address, player2Signer);
    const player2Tx = player2Client.txFromXDR(txWithInjectedAuth.toXDR());
    const needsSigning = await player2Tx.needsNonInvokerSigningBy();
    if (needsSigning.includes(player2Address)) {
      await player2Tx.signAuthEntries({ expiration: validUntilLedgerSeq });
    }
    return player2Tx.toXDR();
  }
  \<close>
  The transaction is returned as the model's record, not as its XDR text.
\<close>

definition importAndSignAuthEntry ::
  "env \<Rightarrow> string \<Rightarrow> address \<Rightarrow> int \<Rightarrow> signer \<Rightarrow> nat option
     \<Rightarrow> (svc_error + assembledTx) \<times> effect list" where
  "importAndSignAuthEntry E player1SignedAuthEntryXdr player2Address player2Points
       player2Signer authTtlMinutes =
     (case parseAuthEntry E player1SignedAuthEntryXdr of
        Inl err \<Rightarrow> (Inl err, [])
      | Inr gameParams \<Rightarrow>
          if player2Address = gp_player1 gameParams then (Inl CannotPlayAgainstYourself, [])
          else
            (let c = StartGame (gp_sessionId gameParams) (gp_player1 gameParams) player2Address
                       (gp_player1Points gameParams) player2Points in
             case simulate E player2Address c of
               Inl m \<Rightarrow> (Inl (Thrown m), [Simulated c])
             | Inr tx \<Rightarrow>
                 (case calculateValidUntilLedger E
                         (case authTtlMinutes of None \<Rightarrow> MULTI_SIG_AUTH_TTL_MINUTES E
                                                | Some t \<Rightarrow> t) of
                    Inl m \<Rightarrow> (Inl (Thrown m), [Simulated c, LedgerRead])
                  | Inr validUntilLedgerSeq \<Rightarrow>
                      (case injectSignedAuthEntry E tx player1SignedAuthEntryXdr player2Address
                              player2Signer validUntilLedgerSeq of
                         Inl err \<Rightarrow> (Inl err, [Simulated c, LedgerRead, Injected])
                       | Inr player2Tx \<Rightarrow>
                           if player2Address \<in> set (needsNonInvokerSigningBy E player2Tx)
                           then (case signAuthEntries E player2Tx validUntilLedgerSeq of
                                   Inl m \<Rightarrow> (Inl (Thrown m),
                                              [Simulated c, LedgerRead, Injected, AuthEntriesSigned])
                                 | Inr signedTx \<Rightarrow>
                                     (Inr signedTx,
                                      [Simulated c, LedgerRead, Injected, AuthEntriesSigned]))
                           else (Inr player2Tx, [Simulated c, LedgerRead, Injected])))))"

subsection \<open>commitBoard and respondToAttack\<close>

text \<open>
  \<^verbatim>\<open>
  async commitBoard(sessionId, player, boardHash: Buffer, signer, authTtlMinutes?) {
    if (boardHash.length !== 32) {
      throw new Error(`boardHash must be 32 bytes, got ${boardHash.length}`);
    }
    const client = this.createSigningClient(player, signer);
    const tx = await client.commit_board({ session_id: sessionId, player,
      board_hash: boardHash }, DEFAULT_METHOD_OPTIONS);
    const validUntilLedgerSeq = await calculateValidUntilLedger(
      RPC_URL, authTtlMinutes ?? DEFAULT_AUTH_TTL_MINUTES);
    const sentTx = await signAndSendViaLaunchtube(
      tx, DEFAULT_METHOD_OPTIONS.timeoutInSeconds, validUntilLedgerSeq);
    const txHash = sentTx.sendTransactionResponse?.hash;
    if (!txHash) throw new Error('No transaction hash from commitBoard');
    const server = new Server(RPC_URL);
    for (let i = 0; i < 10; i++) {
      await new Promise(r => setTimeout(r, 2000));
      const txResponse = await server.getTransaction(txHash);
      if (txResponse.status === 'SUCCESS') { return txHash; }
      if (txResponse.status === 'FAILED') {
        throw new Error(`commitBoard failed: ${this.extractError(txResponse)}`);
      }
    }
    throw new Error('commitBoard not confirmed after polling');
  }
  \<close>
  \<open>commit_poll E h i n\<close> is the loop with \<open>n\<close> rounds left, at round \<open>i\<close>. What
  \<open>extractError\<close> reads from the diagnostics is left out; the message is empty.
\<close>

fun commit_poll :: "env \<Rightarrow> string \<Rightarrow> nat \<Rightarrow> nat \<Rightarrow> (svc_error + string) \<times> effect list" where
  "commit_poll E txHash i 0 = (Inl NotConfirmedAfterPolling, [])"
| "commit_poll E txHash i (Suc n) =
     (case getTransaction E txHash i of
        Inl m \<Rightarrow> (Inl (Thrown m), [Polled txHash])
      | Inr SUCCESS \<Rightarrow> (Inr txHash, [Polled txHash])
      | Inr FAILED \<Rightarrow> (Inl (CommitFailed []), [Polled txHash])
      | Inr NOT_FOUND \<Rightarrow>
          (case commit_poll E txHash (Suc i) n of (r, fx) \<Rightarrow> (r, Polled txHash # fx)))"

definition commitBoard ::
  "env \<Rightarrow> nat \<Rightarrow> address \<Rightarrow> bytes \<Rightarrow> nat option \<Rightarrow> (svc_error + string) \<times> effect list" where
  "commitBoard E sessionId player boardHash authTtlMinutes =
     (if length boardHash \<noteq> 32 then (Inl (BoardHashMustBe32 (length boardHash)), [])
      else
        (let c = CommitBoard sessionId player boardHash in
         case simulate E player c of
           Inl m \<Rightarrow> (Inl (Thrown m), [Simulated c])
         | Inr tx \<Rightarrow>
             (case calculateValidUntilLedger E
                     (case authTtlMinutes of None \<Rightarrow> DEFAULT_AUTH_TTL_MINUTES E | Some t \<Rightarrow> t) of
                Inl m \<Rightarrow> (Inl (Thrown m), [Simulated c, LedgerRead])
              | Inr validUntilLedgerSeq \<Rightarrow>
                  (case signAndSendViaLaunchtube E tx (DEFAULT_TIMEOUT E) validUntilLedgerSeq of
                     Inl m \<Rightarrow> (Inl (Thrown m), [Simulated c, LedgerRead, Submitted c])
                   | Inr sent \<Rightarrow>
                       (case sendHash sent of
                          None \<Rightarrow> (Inl NoTransactionHash, [Simulated c, LedgerRead, Submitted c])
                        | Some txHash \<Rightarrow>
                            if txHash = [] then
                              (Inl NoTransactionHash, [Simulated c, LedgerRead, Submitted c])
                            else
                              (case commit_poll E txHash 0 10 of
                                 (r, fx) \<Rightarrow> (r, [Simulated c, LedgerRead, Submitted c] @ fx)))))))"

text \<open>
  \<open>respondToAttack\<close> of \<open>Stellar-Game-Studio/poison-game-frontend\<close>:
  \<^verbatim>\<open>
  async respondToAttack(sessionId, defender, tileType: 0 | 1 | 2, proofBlob: Uint8Array,
                        signer, authTtlMinutes?) {
    if (proofBlob.length !== 14592) {
      throw new Error(`Proof must be 14592 bytes, got ${proofBlob.length}`);
    }
    const client = this.createSigningClient(defender, signer);
    const tx = await client.respond_to_attack({ session_id: sessionId, defender,
      tile_type: tileType, proof_blob: Buffer.from(proofBlob) }, ZK_METHOD_OPTIONS);
    const validUntilLedgerSeq = await calculateValidUntilLedger(
      RPC_URL, authTtlMinutes ?? DEFAULT_AUTH_TTL_MINUTES);
    const sentTx = await signAndSendViaLaunchtube(
      tx, ZK_METHOD_OPTIONS.timeoutInSeconds, validUntilLedgerSeq);
    if (sentTx.getTransactionResponse?.status === 'FAILED') {
      throw new Error(`respondToAttack failed: ${this.extractError(...)}`);
    }
    return sentTx.result;
  }
  \<close>
  The other copy of the service (\<open>respondToAttack_logged\<close>, the copy that logs every
  step) begins differently and is the same from \<open>createSigningClient\<close> on:
  \<^verbatim>\<open>
    if (proofBlob.length !== 14592) {
      console.warn(`[respondToAttack] Expected 14592-byte proof, got ${proofBlob.length}`);
    }
  \<close>
  \<open>ZK_METHOD_OPTIONS.timeoutInSeconds\<close> is 120 in both.
\<close>

definition respond_submit ::
  "env \<Rightarrow> nat \<Rightarrow> address \<Rightarrow> tile \<Rightarrow> bytes \<Rightarrow> nat option \<Rightarrow> (svc_error + unit) \<times> effect list" where
  "respond_submit E sessionId defender tileType proofBlob authTtlMinutes =
     (let c = RespondToAttack sessionId defender tileType proofBlob in
      case simulate E defender c of
        Inl m \<Rightarrow> (Inl (Thrown m), [Simulated c])
      | Inr tx \<Rightarrow>
          (case calculateValidUntilLedger E
                  (case authTtlMinutes of None \<Rightarrow> DEFAULT_AUTH_TTL_MINUTES E | Some t \<Rightarrow> t) of
             Inl m \<Rightarrow> (Inl (Thrown m), [Simulated c, LedgerRead])
           | Inr validUntilLedgerSeq \<Rightarrow>
               (case signAndSendViaLaunchtube E tx 120 validUntilLedgerSeq of
                  Inl m \<Rightarrow> (Inl (Thrown m), [Simulated c, LedgerRead, Submitted c])
                | Inr sent \<Rightarrow>
                    if getStatus sent = Some FAILED
                    then (Inl (TransactionFailed (diagnostics sent)),
                          [Simulated c, LedgerRead, Submitted c])
                    else (Inr (), [Simulated c, LedgerRead, Submitted c]))))"

definition respondToAttack ::
  "env \<Rightarrow> nat \<Rightarrow> address \<Rightarrow> tile \<Rightarrow> bytes \<Rightarrow> nat option \<Rightarrow> (svc_error + unit) \<times> effect list" where
  "respondToAttack E sessionId defender tileType proofBlob authTtlMinutes =
     (if length proofBlob \<noteq> 14592 then (Inl (ProofMustBe14592 (length proofBlob)), [])
      else respond_submit E sessionId defender tileType proofBlob authTtlMinutes)"

definition respondToAttack_logged ::
  "env \<Rightarrow> nat \<Rightarrow> address \<Rightarrow> tile \<Rightarrow> bytes \<Rightarrow> nat option \<Rightarrow> (svc_error + unit) \<times> effect list" where
  "respondToAttack_logged E sessionId defender tileType proofBlob authTtlMinutes =
     (case respond_submit E sessionId defender tileType proofBlob authTtlMinutes of
        (r, fx) \<Rightarrow>
          (r, (if length proofBlob \<noteq> 14592
               then [Warned (''[respondToAttack] Expected 14592-byte proof, got ''
                             @ show_nat (length proofBlob))]
               else []) @ fx))"

section \<open>A sample environment\<close>

text \<open>
  A concrete environment on which the service can be run: two players \<open>GA\<close> and \<open>GB\<close>,
  a simulation that asks both for authorization (the opponent's entry first), every
  call succeeding, the ledger at sequence 50. \<open>FRESH\<close> decodes to an entry signed by
  \<open>GA\<close> and valid until ledger 100, \<open>LAPSED\<close> to one valid until ledger 40.
\<close>

definition sample_entry :: "address \<Rightarrow> nat \<Rightarrow> string option \<Rightarrow> authEntry" where
  "sample_entry a v sg =
     \<lparr>credentials = AddressCredentials a v sg,
      rootInvocation = ContractFn ''start_game'' [ScU32 7, ScI128 0 1000000]\<rparr>"

definition sample_env :: env where
  "sample_env =
     \<lparr>fromXDR = (\<lambda>x. if x = ''FRESH'' then Some (sample_entry ''GA'' 100 (Some ''sigA''))
                     else if x = ''LAPSED'' then Some (sample_entry ''GA'' 40 (Some ''sigA''))
                     else None),
      toXDR = (\<lambda>e. case credentials e of
                       SourceAccount \<Rightarrow> ''source''
                     | AddressCredentials a v sg \<Rightarrow> a @ '':'' @ show_nat v),
      authorizeEntry = (\<lambda>e cb v.
         case cb ''preimage'' of
           Inl err \<Rightarrow> Inl err
         | Inr sg \<Rightarrow> Inr (case credentials e of
                            SourceAccount \<Rightarrow> e
                          | AddressCredentials a _ _ \<Rightarrow>
                              e\<lparr>credentials := AddressCredentials a v (Some sg)\<rparr>)),
      simulate = (\<lambda>pk c. Inr \<lparr>invoked = c, publicKey = pk,
                   simAuth = Some [sample_entry ''GB'' 0 None, sample_entry ''GA'' 0 None]\<rparr>),
      needsNonInvokerSigningBy = (\<lambda>tx. [''GB'']),
      signAuthEntries = (\<lambda>tx v. Inr tx),
      calculateValidUntilLedger = (\<lambda>ttl. Inr (50 + 12 * ttl)),
      signAndSendViaLaunchtube = (\<lambda>tx t v.
         Inr \<lparr>sendHash = Some ''hash'', getStatus = Some SUCCESS, diagnostics = []\<rparr>),
      getTransaction = (\<lambda>h i. Inr SUCCESS),
      latestLedger = 50,
      DEFAULT_AUTH_TTL_MINUTES = 5,
      MULTI_SIG_AUTH_TTL_MINUTES = 60,
      DEFAULT_TIMEOUT = 30\<rparr>"

definition sample_signer :: signer where
  "sample_signer = \<lparr>signAuthEntry = Some (\<lambda>preimage a. Inr (''sig:'' @ a))\<rparr>"

section \<open>Board rules: proofs\<close>

lemma list_ex_invalid_iff: "list_ex invalid_tile tiles = (\<not> tiles_ok tiles)"
  by (induction tiles) (auto simp: invalid_tile_def tiles_ok_def)

lemma filter_length_update:
  "i < length xs \<Longrightarrow>
   length (filter P (xs[i := v])) + (if P (xs ! i) then 1 else 0)
     = length (filter P xs) + (if P v then 1 else 0)"
proof (induction xs arbitrary: i)
  case Nil
  then show ?case by simp
next
  case (Cons x xs)
  show ?case
  proof (cases i)
    case 0
    then show ?thesis by simp
  next
    case (Suc j)
    with Cons.prems have "j < length xs" by simp
    from Cons.IH [OF this] Suc show ?thesis by simp
  qed
qed

lemma tiles_ok_update:
  "tiles_ok xs \<Longrightarrow> v = 0 \<or> v = 1 \<or> v = 2 \<Longrightarrow> tiles_ok (xs[i := v])"
  unfolding tiles_ok_def list_all_iff
  by (metis insert_iff set_update_subset_insert subsetD)

text \<open>
  Claim C2. For a 15-slot array \<open>validateBoard\<close> accepts exactly when every slot is one
  of Normal, Poison, Shield and there are exactly 2 Poison and exactly 1 Shield tiles.
  An array whose length is not 15 is rejected with a message that gives the length; an
  array of 15 valid tiles with another distribution is rejected with a message that
  names the count that is wrong (the poison count first, then the shield count) and
  gives its value; an array of 15 with a value that is no tile is rejected as having
  invalid tile values. Each copy of the engine does so, with its own wording.
\<close>

theorem validateBoard_accepts_iff:
  "(valid (validateBoard tiles) \<longleftrightarrow>
      length tiles = 15 \<and> tiles_ok tiles \<and> poisons_of tiles = 2 \<and> shields_of tiles = 1)
   \<and> (length tiles \<noteq> 15 \<longrightarrow>
        validateBoard tiles =
          \<lparr>valid = False, error = Some (''Need 15 tiles, got '' @ show_nat (length tiles))\<rparr>)
   \<and> (length tiles = 15 \<and> tiles_ok tiles \<and> poisons_of tiles \<noteq> 2 \<longrightarrow>
        validateBoard tiles =
          \<lparr>valid = False,
           error = Some (''Need exactly 2 poison tiles, got '' @ show_nat (poisons_of tiles))\<rparr>)
   \<and> (length tiles = 15 \<and> tiles_ok tiles \<and> poisons_of tiles = 2 \<and> shields_of tiles \<noteq> 1 \<longrightarrow>
        validateBoard tiles =
          \<lparr>valid = False,
           error = Some (''Need exactly 1 shield tile, got '' @ show_nat (shields_of tiles))\<rparr>)
   \<and> valid (validateBoard2 tiles) = valid (validateBoard tiles)
   \<and> (length tiles = 15 \<and> \<not> tiles_ok tiles \<longrightarrow>
        validateBoard tiles = \<lparr>valid = False, error = Some ''Invalid tile values''\<rparr>)
   \<and> (valid (validateBoard2 tiles) \<longleftrightarrow>
        length tiles = 15 \<and> tiles_ok tiles \<and> poisons_of tiles = 2 \<and> shields_of tiles = 1)
   \<and> (length tiles \<noteq> 15 \<longrightarrow>
        validateBoard2 tiles =
          \<lparr>valid = False, error = Some (''Need 15 tiles, got '' @ show_nat (length tiles))\<rparr>)
   \<and> (length tiles = 15 \<and> \<not> tiles_ok tiles \<longrightarrow>
        validateBoard2 tiles = \<lparr>valid = False, error = Some ''Invalid tile values''\<rparr>)
   \<and> (length tiles = 15 \<and> tiles_ok tiles \<and> poisons_of tiles \<noteq> 2 \<longrightarrow>
        validateBoard2 tiles =
          \<lparr>valid = False,
           error = Some (''Need 2 poison, got '' @ show_nat (poisons_of tiles))\<rparr>)
   \<and> (length tiles = 15 \<and> tiles_ok tiles \<and> poisons_of tiles = 2 \<and> shields_of tiles \<noteq> 1 \<longrightarrow>
        validateBoard2 tiles =
          \<lparr>valid = False,
           error = Some (''Need 1 shield, got '' @ show_nat (shields_of tiles))\<rparr>)"
  by (simp add: validateBoard_def validateBoard2_def list_ex_invalid_iff)

theorem validateBoard_accepts_iff_witness:
  "valid (validateBoard [1, 0, 0, 1, 0, 0, 0, 2, 0, 0, 0, 0, 0, 0, 0])
   \<and> validateBoard [1, 0, 0, 1, 0, 0, 0, 0, 0, 0, 0, 0, 0, 0, 0]
       = \<lparr>valid = False, error = Some ''Need exactly 1 shield tile, got 0''\<rparr>
   \<and> validateBoard [1, 1, 1, 2, 2, 0, 0, 0, 0, 0, 0, 0, 0, 0, 0]
       = \<lparr>valid = False, error = Some ''Need exactly 2 poison tiles, got 3''\<rparr>
   \<and> validateBoard [1, 1, 2]
       = \<lparr>valid = False, error = Some ''Need 15 tiles, got 3''\<rparr>
   \<and> valid (validateBoard2 [1, 0, 0, 1, 0, 0, 0, 2, 0, 0, 0, 0, 0, 0, 0])
   \<and> validateBoard2 [1, 0, 0, 1, 0, 0, 0, 0, 0, 0, 0, 0, 0, 0, 0]
       = \<lparr>valid = False, error = Some ''Need 1 shield, got 0''\<rparr>
   \<and> validateBoard2 [1, 1, 1, 2, 2, 0, 0, 0, 0, 0, 0, 0, 0, 0, 0]
       = \<lparr>valid = False, error = Some ''Need 2 poison, got 3''\<rparr>
   \<and> validateBoard2 [1, 1, 2]
       = \<lparr>valid = False, error = Some ''Need 15 tiles, got 3''\<rparr>
   \<and> validateBoard [1, 1, 2, 7, 0, 0, 0, 0, 0, 0, 0, 0, 0, 0, 0]
       = \<lparr>valid = False, error = Some ''Invalid tile values''\<rparr>
   \<and> validateBoard2 [1, 1, 2, 7, 0, 0, 0, 0, 0, 0, 0, 0, 0, 0, 0]
       = \<lparr>valid = False, error = Some ''Invalid tile values''\<rparr>"
  using validateBoard_accepts_iff [of "[1, 0, 0, 1, 0, 0, 0, 2, 0, 0, 0, 0, 0, 0, 0]"]
        validateBoard_accepts_iff [of "[1, 0, 0, 1, 0, 0, 0, 0, 0, 0, 0, 0, 0, 0, 0]"]
        validateBoard_accepts_iff [of "[1, 1, 1, 2, 2, 0, 0, 0, 0, 0, 0, 0, 0, 0, 0]"]
        validateBoard_accepts_iff [of "[1, 1, 2]"]
        validateBoard_accepts_iff [of "[1, 1, 2, 7, 0, 0, 0, 0, 0, 0, 0, 0, 0, 0, 0]"]
  by (simp add: tiles_ok_def poisons_of_def shields_of_def show_nat.simps digit_char_def)

text \<open>
  Claim C10. The tile click of the board editor keeps the placement bounds: from a board
  whose tiles are all 0, 1 or 2, with at most 2 Poison and at most 1 Shield, a click on
  any tile with any tool (0, 1 or 2) gives a board with the same three properties. A
  click on a tile that already holds the tool clears it to Normal, and a click that
  would exceed a bound leaves the board as it was.
\<close>

theorem tileClick_keeps_bounds:
  assumes "idx < length myBoard" and "within_bounds myBoard"
    and "activeTool = 0 \<or> activeTool = 1 \<or> activeTool = 2"
  shows "\<exists>next. tileClick myBoard activeTool idx = Some next
           \<and> within_bounds next
           \<and> length next = length myBoard
           \<and> (myBoard ! idx = activeTool \<longrightarrow> next = myBoard[idx := 0])
           \<and> (myBoard ! idx \<noteq> activeTool \<and> activeTool = 1 \<and> poisons_of myBoard \<ge> 2
                \<longrightarrow> next = myBoard)
           \<and> (myBoard ! idx \<noteq> activeTool \<and> activeTool = 2 \<and> shields_of myBoard \<ge> 1
                \<longrightarrow> next = myBoard)"
proof -
  have ok: "tiles_ok myBoard" and p: "poisons_of myBoard \<le> 2" and s: "shields_of myBoard \<le> 1"
    using assms(2) by (simp_all add: within_bounds_def)
  have P: "\<And>v. poisons_of (myBoard[idx := v]) + (if myBoard ! idx = 1 then 1 else 0)
             = poisons_of myBoard + (if v = 1 then 1 else 0)"
    unfolding poisons_of_def using filter_length_update [OF assms(1), of "\<lambda>t. t = 1"] by simp
  have S: "\<And>v. shields_of (myBoard[idx := v]) + (if myBoard ! idx = 2 then 1 else 0)
             = shields_of myBoard + (if v = 2 then 1 else 0)"
    unfolding shields_of_def using filter_length_update [OF assms(1), of "\<lambda>t. t = 2"] by simp
  have clear: "within_bounds (myBoard[idx := 0])"
    using P [of 0] S [of 0] p s tiles_ok_update [OF ok, of 0 idx]
    by (simp add: within_bounds_def split: if_splits)
  have put1: "within_bounds (myBoard[idx := 1])" if "myBoard ! idx \<noteq> 1" "poisons_of myBoard < 2"
    using that P [of 1] S [of 1] p s tiles_ok_update [OF ok, of 1 idx]
    by (simp add: within_bounds_def split: if_splits)
  have put2: "within_bounds (myBoard[idx := 2])" if "myBoard ! idx \<noteq> 2" "shields_of myBoard < 1"
    using that P [of 2] S [of 2] p s tiles_ok_update [OF ok, of 2 idx]
    by (simp add: within_bounds_def split: if_splits)
  show ?thesis
  proof (cases "myBoard ! idx = activeTool")
    case True
    then show ?thesis using assms(1) clear by (simp add: tileClick_def)
  next
    case False
    from assms(3) consider "activeTool = 0" | "activeTool = 1" | "activeTool = 2" by blast
    then show ?thesis
    proof cases
      case 1
      then show ?thesis using False assms(1) clear by (simp add: tileClick_def)
    next
      case 2
      then show ?thesis using False assms(1,2) put1
        by (cases "poisons_of myBoard \<ge> 2") (simp_all add: tileClick_def)
    next
      case 3
      then show ?thesis using False assms(1,2) put2
        by (cases "shields_of myBoard \<ge> 1") (simp_all add: tileClick_def)
    qed
  qed
qed

theorem tileClick_keeps_bounds_witness:
  "tileClick [1, 0, 0, 1, 0, 0, 0, 2, 0, 0, 0, 0, 0, 0, 0] 1 5
     = Some [1, 0, 0, 1, 0, 0, 0, 2, 0, 0, 0, 0, 0, 0, 0]
   \<and> within_bounds [1, 0, 0, 1, 0, 0, 0, 2, 0, 0, 0, 0, 0, 0, 0]"
  using tileClick_keeps_bounds [of 5 "[1, 0, 0, 1, 0, 0, 0, 2, 0, 0, 0, 0, 0, 0, 0]" 1]
  by (simp add: within_bounds_def tiles_ok_def poisons_of_def shields_of_def)

section \<open>Turn sub-state and action lock: proofs\<close>

text \<open>
  Claim C7. For every game state and player number 1 or 2, the attack section is shown
  exactly when no attack is pending and the turn is the player's; the defense section
  exactly when an attack is pending and the turn is not the player's; in every other
  case the waiting state is shown, and exactly one of the three is shown.
\<close>

theorem subState_of_turn:
  assumes "me = 1 \<or> me = 2"
  shows "isMyAttackTurn me (Some g) = (\<not> has_pending_attack g \<and> current_turn g = me)
     \<and> isMyDefenseTurn me (Some g) = (has_pending_attack g \<and> current_turn g \<noteq> me)
     \<and> playSections me (Some g) =
           (if \<not> has_pending_attack g \<and> current_turn g = me then [MyTurnToAttack]
            else if has_pending_attack g \<and> current_turn g \<noteq> me then [MyTurnToDefend]
            else [Waiting])"
  using assms by (auto simp: isMyAttackTurn_def isMyDefenseTurn_def playSections_def)

theorem subState_of_turn_witness:
  "playSections 1 (Some \<lparr>current_turn = 1, has_pending_attack = False, p1_revealed = [],
      p2_revealed = [], pending_attack_tile = 0, winner = 0\<rparr>) = [MyTurnToAttack]
   \<and> playSections 2 (Some \<lparr>current_turn = 1, has_pending_attack = True, p1_revealed = [],
      p2_revealed = [], pending_attack_tile = 4, winner = 0\<rparr>) = [MyTurnToDefend]
   \<and> playSections 1 (Some \<lparr>current_turn = 1, has_pending_attack = True, p1_revealed = [],
      p2_revealed = [], pending_attack_tile = 4, winner = 0\<rparr>) = [Waiting]"
  using subState_of_turn [of 1 "\<lparr>current_turn = 1, has_pending_attack = False, p1_revealed = [],
      p2_revealed = [], pending_attack_tile = 0, winner = 0\<rparr>"]
    subState_of_turn [of 2 "\<lparr>current_turn = 1, has_pending_attack = True, p1_revealed = [],
      p2_revealed = [], pending_attack_tile = 4, winner = 0\<rparr>"]
    subState_of_turn [of 1 "\<lparr>current_turn = 1, has_pending_attack = True, p1_revealed = [],
      p2_revealed = [], pending_attack_tile = 4, winner = 0\<rparr>"]
  by simp

text \<open>
  Claim C9. A call of the action runner while the lock is held, or while a submission is
  marked busy, returns at once: the action's body is not invoked, nothing is recorded for
  later (the state is unchanged), and the call ends normally. When the action in flight
  settles, by fulfilment or by rejection with any error, the lock is released; a later
  call runs its action.
\<close>

theorem runAction_lock:
  "(actionLock s \<or> isBusy s \<longrightarrow> runAction_call s action = (ReturnedAtOnce, s))
   \<and> (\<not> actionLock s \<and> \<not> isBusy s \<longrightarrow>
        fst (runAction_call s action) = AwaitingAction
        \<and> actionLock (snd (runAction_call s action))
        \<and> started (snd (runAction_call s action)) = started s @ [action]
        \<and> runAction_call (snd (runAction_call s action)) action2
            = (ReturnedAtOnce, snd (runAction_call s action)))
   \<and> \<not> actionLock (snd (runAction_settle s outcome))
   \<and> fst (runAction_settle s outcome) = outcome
   \<and> started (snd (runAction_settle s outcome)) = started s"
  by (simp add: runAction_call_def runAction_settle_def)

theorem runAction_lock_witness:
  "runAction_call \<lparr>actionLock = True, loading = False, isCommitting = False,
       isResponding = False, started = [''attack'']\<rparr> ''respond''
     = (ReturnedAtOnce, \<lparr>actionLock = True, loading = False, isCommitting = False,
          isResponding = False, started = [''attack'']\<rparr>)
   \<and> \<not> actionLock (snd (runAction_settle \<lparr>actionLock = True, loading = False,
          isCommitting = False, isResponding = False, started = [''attack'']\<rparr>
          (Rejected ''Attack failed'')))"
  using runAction_lock [of "\<lparr>actionLock = True, loading = False, isCommitting = False,
       isResponding = False, started = [''attack'']\<rparr>" "''respond''" "''respond''"
       "Rejected ''Attack failed''"]
  by simp

section \<open>Session identifiers: proofs\<close>

lemma draw_nonzero_never_zero: "draw_nonzero draws i = Some v \<Longrightarrow> v \<noteq> 0"
  by (rule draw_nonzero.raw_induct [where P = "\<lambda>_ _ v. v \<noteq> 0"])
     (auto simp: Let_def split: if_splits)

lemma draw_nonzero_returns: "draws (i + k) \<noteq> 0 \<Longrightarrow> \<exists>v. draw_nonzero draws i = Some v"
proof (induction k arbitrary: i)
  case 0
  then show ?case by (subst draw_nonzero.simps) (simp add: Let_def)
next
  case (Suc k)
  then have "\<exists>v. draw_nonzero draws (Suc i) = Some v" by simp
  then show ?case by (subst draw_nonzero.simps) (simp add: Let_def)
qed

text \<open>
  With \<open>crypto\<close> available \<open>createRandomSessionId\<close> never returns zero, and it returns
  as soon as one draw is not zero.
\<close>

lemma createRandomSessionId_crypto_range:
  assumes "createRandomSessionId True draws r = Some v"
  shows "1 \<le> v \<and> v \<le> 4294967295"
proof -
  from assms obtain w where w: "draw_nonzero draws 0 = Some w" "v = uint w"
    by (auto simp: createRandomSessionId_def)
  from draw_nonzero_never_zero [OF w(1)] have "uint w \<noteq> 0" by (simp add: uint_0_iff)
  moreover have "0 \<le> uint w" by simp
  ultimately have "1 \<le> uint w" by linarith
  moreover have "uint w < 2 ^ 32" using uint_bounded [of w] by simp
  ultimately show ?thesis using w(2) by simp
qed

lemma createRandomSessionId_crypto_returns:
  "draws k \<noteq> 0 \<Longrightarrow> \<exists>v. createRandomSessionId True draws r = Some v"
  using draw_nonzero_returns [of draws 0 k] by (auto simp: createRandomSessionId_def)

text \<open>Without \<open>crypto\<close> the result is never zero either.\<close>

lemma createRandomSessionId_fallback_range:
  "\<exists>v. createRandomSessionId False draws r = Some v \<and> 1 \<le> v \<and> v \<le> 4294967295"
proof -
  define n where "n = \<lfloor>to_double (r * 4294967295)\<rfloor> mod 4294967296"
  have "0 \<le> n" "n < 4294967296" by (simp_all add: n_def)
  then show ?thesis
    by (cases "n = 0") (simp_all add: createRandomSessionId_def Let_def flip: n_def)
qed

text \<open>
  The rounding of the product matters: at \<open>Math.random() = 1884999728506423 / 2^52\<close> the
  exact product with \<open>10^9\<close> lies just below 418554020 and the double product is
  418554020.
\<close>

lemma bits_example: "bits 418554019 = 29"
  by (simp add: bits.simps)

lemma handleCreateGame_sessionId_rounds:
  "handleCreateGame_sessionId (1884999728506423 / 2 ^ 52) = 418554020
   \<and> \<lfloor>(1884999728506423 / 2 ^ 52) * (1000000000 :: real)\<rfloor> = 418554019"
proof -
  have fl: "\<lfloor>(1884999728506423 / 2 ^ 52) * (1000000000 :: real)\<rfloor> = 418554019" by simp
  have sh: "binade_shift ((1884999728506423 / 2 ^ 52) * 1000000000) = 24"
    unfolding binade_shift_def fl by (simp add: bits_example)
  show ?thesis
    unfolding handleCreateGame_sessionId_def to_double_def sh
    by (simp add: half_even_def Let_def)
qed

text \<open>
  Claim C8 (the code departs from it). The claim says that every session id chosen when
  a game is created lies in the non-zero range from 1 to \<open>2^32 - 1\<close>. The lobby's
  \<open>handleCreateGame\<close> computes \<open>Math.floor(Math.random() * 1000000000)\<close>; when
  \<open>Math.random()\<close> returns 0, a value it can return, the session id is 0.
\<close>

theorem handleCreateGame_sessionId_zero:
  "handleCreateGame_sessionId 0 = 0"
  by (simp add: handleCreateGame_sessionId_def to_double_def)

section \<open>The proof engine: proofs\<close>

lemma init_effects: "init tk e = (r, e', fx) \<Longrightarrow> \<not> list_ex produces fx"
  by (auto simp: init_def split: if_splits option.splits prod.splits)

text \<open>
  Claim C3. When the tile array does not have 15 entries, or the index is outside 0..14,
  or the tile at the index is not the claimed type, \<open>generateTileProof\<close> throws, and
  neither \<open>noir.execute\<close> nor \<open>backend.generateProof\<close> has been called: no witness and
  no proof exists that could be submitted. With the engine ready the error is the one of
  the first failing check. Both copies of the engine behave so.
\<close>

theorem generateTileProof_fails_locally:
  assumes "length tiles \<noteq> 15 \<or> tileIndex < 0 \<or> tileIndex > 14
           \<or> js_index tiles tileIndex \<noteq> Some tileType"
  shows "\<exists>err e' fx.
           generateTileProof tk e tiles salt commitment tileIndex tileType = (Inl err, e', fx)
           \<and> generateTileProof2 tk e tiles salt commitment tileIndex tileType = (Inl err, e', fx)
           \<and> \<not> list_ex produces fx
           \<and> (initialized e \<and> noir e \<and> backend e \<longrightarrow>
                fx = [] \<and> e' = e
                \<and> err = (if length tiles \<noteq> 15 then Need15Tiles
                         else if tileIndex < 0 \<or> tileIndex > 14 then InvalidTileIndex
                         else TileTypeMismatch))"
proof -
  obtain r e1 fx1 where i: "init tk e = (r, e1, fx1)" by (cases "init tk e") auto
  have fx1: "\<not> list_ex produces fx1" using init_effects [OF i] .
  have ready: "initialized e \<Longrightarrow> r = None \<and> e1 = e \<and> fx1 = []"
    using i by (simp add: init_def)
  show ?thesis
  proof (cases r)
    case (Some m)
    with i fx1 ready show ?thesis
      by (auto simp: generateTileProof_def generateTileProof2_def)
  next
    case None
    with i fx1 ready assms show ?thesis
      by (auto simp: generateTileProof_def generateTileProof2_def)
  qed
qed

theorem generateTileProof_fails_locally_witness:
  "generateTileProof
      \<lparr>doInit_throws = None, noir_execute = (\<lambda>_. Inr (0::nat)),
       backend_generateProof = (\<lambda>_. Inr (replicate 14592 0))\<rparr>
      \<lparr>noir = True, backend = True, bb = True, circuit = True, initialized = True,
       initializing = Some None, last_error = None\<rparr>
      [1, 0, 0, 1, 0, 0, 0, 2, 0, 0, 0, 0, 0, 0, 0] 7 [] 3 0
    = (Inl TileTypeMismatch,
       \<lparr>noir = True, backend = True, bb = True, circuit = True, initialized = True,
        initializing = Some None, last_error = None\<rparr>, [])"
  using generateTileProof_fails_locally
     [of "[1, 0, 0, 1, 0, 0, 0, 2, 0, 0, 0, 0, 0, 0, 0]" 3 0
         "\<lparr>doInit_throws = None, noir_execute = (\<lambda>_. Inr (0::nat)),
           backend_generateProof = (\<lambda>_. Inr (replicate 14592 0))\<rparr>"
         "\<lparr>noir = True, backend = True, bb = True, circuit = True, initialized = True,
           initializing = Some None, last_error = None\<rparr>" 7 "[]"]
  by (auto simp: js_index_def)

section \<open>The contract service: proofs\<close>

text \<open>The loop of \<open>prepareStartGame\<close> returns the first entry whose address is the initiator's.\<close>

lemma loop_find:
  "player1AuthEntry_loop es p = find (\<lambda>e. entry_address e = Some p) es"
  by (induction es) (auto simp: entry_address_def split: sorobanCredentials.splits)

lemma loop_first_match:
  assumes "i < length es" "entry_address (es ! i) = Some p"
    and "\<forall>j < i. entry_address (es ! j) \<noteq> Some p"
  shows "player1AuthEntry_loop es p = Some (es ! i)"
  unfolding loop_find find_Some_iff using assms by blast

lemma loop_no_match:
  "(\<forall>e \<in> set es. entry_address e \<noteq> Some p) \<Longrightarrow> player1AuthEntry_loop es p = None"
  unfolding loop_find find_None_iff by blast

text \<open>
  Claim C5. \<open>prepareStartGame\<close> picks the initiator's authorization entry from the
  dry-run by address: wherever in the returned list the first entry that names the
  initiator stands, that entry is the one handed to \<open>authorizeEntry\<close> and, signed,
  returned; when no entry names the initiator, it fails with the error that no
  authorization entry was found for player 1.
\<close>

theorem prepareStartGame_matches_by_address:
  assumes "simulate E opponent
             (StartGame sessionId initiator opponent initiatorPoints opponentPoints) = Inr tx"
  shows "(\<forall>authEntries i.
            simAuth tx = Some authEntries \<and> i < length authEntries
            \<and> entry_address (authEntries ! i) = Some initiator
            \<and> (\<forall>j < i. entry_address (authEntries ! j) \<noteq> Some initiator)
            \<and> calculateValidUntilLedger E
                 (case ttl of None \<Rightarrow> MULTI_SIG_AUTH_TTL_MINUTES E | Some t \<Rightarrow> t) = Inr v
            \<and> signAuthEntry initiatorSigner = Some sign
            \<longrightarrow> prepareStartGame E sessionId initiator opponent initiatorPoints opponentPoints
                  initiatorSigner ttl
                = (map_sum id (toXDR E)
                     (authorizeEntry E (authEntries ! i) (signCallback sign initiator) v),
                   [Simulated (StartGame sessionId initiator opponent initiatorPoints
                                 opponentPoints),
                    LedgerRead, Authorized (authEntries ! i)]))
       \<and> (\<forall>authEntries.
            simAuth tx = Some authEntries
            \<and> (\<forall>e \<in> set authEntries. entry_address e \<noteq> Some initiator)
            \<longrightarrow> prepareStartGame E sessionId initiator opponent initiatorPoints opponentPoints
                  initiatorSigner ttl
                = (Inl (NoAuthEntryForPlayer1 initiator),
                   [Simulated (StartGame sessionId initiator opponent initiatorPoints
                                 opponentPoints)]))
       \<and> (simAuth tx = None
            \<longrightarrow> prepareStartGame E sessionId initiator opponent initiatorPoints opponentPoints
                  initiatorSigner ttl
                = (Inl NoAuthEntriesInSimulation,
                   [Simulated (StartGame sessionId initiator opponent initiatorPoints
                                 opponentPoints)]))"
proof (intro conjI allI impI)
  fix authEntries i
  assume h: "simAuth tx = Some authEntries \<and> i < length authEntries
            \<and> entry_address (authEntries ! i) = Some initiator
            \<and> (\<forall>j < i. entry_address (authEntries ! j) \<noteq> Some initiator)
            \<and> calculateValidUntilLedger E
                 (case ttl of None \<Rightarrow> MULTI_SIG_AUTH_TTL_MINUTES E | Some t \<Rightarrow> t) = Inr v
            \<and> signAuthEntry initiatorSigner = Some sign"
  then have sel: "player1AuthEntry_loop authEntries initiator = Some (authEntries ! i)"
    by (intro loop_first_match) auto
  show "prepareStartGame E sessionId initiator opponent initiatorPoints opponentPoints
          initiatorSigner ttl
        = (map_sum id (toXDR E)
             (authorizeEntry E (authEntries ! i) (signCallback sign initiator) v),
           [Simulated (StartGame sessionId initiator opponent initiatorPoints opponentPoints),
            LedgerRead, Authorized (authEntries ! i)])"
    using assms sel h
    by (simp add: prepareStartGame_def Let_def split: sum.splits)
next
  fix authEntries
  assume h: "simAuth tx = Some authEntries
             \<and> (\<forall>e \<in> set authEntries. entry_address e \<noteq> Some initiator)"
  then have "player1AuthEntry_loop authEntries initiator = None" by (intro loop_no_match) simp
  with assms h
  show "prepareStartGame E sessionId initiator opponent initiatorPoints opponentPoints
          initiatorSigner ttl
        = (Inl (NoAuthEntryForPlayer1 initiator),
           [Simulated (StartGame sessionId initiator opponent initiatorPoints opponentPoints)])"
    by (simp add: prepareStartGame_def Let_def)
next
  assume "simAuth tx = None"
  with assms
  show "prepareStartGame E sessionId initiator opponent initiatorPoints opponentPoints
          initiatorSigner ttl
        = (Inl NoAuthEntriesInSimulation,
           [Simulated (StartGame sessionId initiator opponent initiatorPoints opponentPoints)])"
    by (simp add: prepareStartGame_def Let_def)
qed

text \<open>What the sample simulation returns.\<close>

lemma sample_simulate:
  "simulate sample_env pk c = Inr \<lparr>invoked = c, publicKey = pk,
      simAuth = Some [sample_entry ''GB'' 0 None, sample_entry ''GA'' 0 None]\<rparr>"
  by (simp add: sample_env_def)

theorem prepareStartGame_matches_by_address_witness:
  "prepareStartGame sample_env 7 ''GA'' ''GB'' 1000000 1000000 sample_signer None
     = (Inr ''GA:770'',
        [Simulated (StartGame 7 ''GA'' ''GB'' 1000000 1000000), LedgerRead,
         Authorized (sample_entry ''GA'' 0 None)])
   \<and> prepareStartGame sample_env 7 ''GC'' ''GB'' 1000000 1000000 sample_signer None
     = (Inl (NoAuthEntryForPlayer1 ''GC''), [Simulated (StartGame 7 ''GC'' ''GB'' 1000000 1000000)])"
proof -
  have first: "prepareStartGame sample_env 7 ''GA'' ''GB'' 1000000 1000000 sample_signer None
     = (map_sum id (toXDR sample_env)
          (authorizeEntry sample_env
             ([sample_entry ''GB'' 0 None, sample_entry ''GA'' 0 None] ! 1)
             (signCallback (\<lambda>preimage a. Inr (''sig:'' @ a)) ''GA'') 770),
        [Simulated (StartGame 7 ''GA'' ''GB'' 1000000 1000000), LedgerRead,
         Authorized ([sample_entry ''GB'' 0 None, sample_entry ''GA'' 0 None] ! 1)])"
    using prepareStartGame_matches_by_address
            [where E = sample_env and sessionId = 7 and initiator = "''GA''"
               and opponent = "''GB''" and initiatorPoints = 1000000
               and opponentPoints = 1000000 and ttl = None and v = 770
               and initiatorSigner = sample_signer
               and sign = "\<lambda>preimage a. Inr (''sig:'' @ a)",
             OF sample_simulate, THEN conjunct1, rule_format,
             of "[sample_entry ''GB'' 0 None, sample_entry ''GA'' 0 None]" 1]
    by (simp add: sample_env_def sample_entry_def sample_signer_def entry_address_def)
  have none: "prepareStartGame sample_env 7 ''GC'' ''GB'' 1000000 1000000 sample_signer None
     = (Inl (NoAuthEntryForPlayer1 ''GC''), [Simulated (StartGame 7 ''GC'' ''GB'' 1000000 1000000)])"
    using prepareStartGame_matches_by_address
            [where E = sample_env and sessionId = 7 and initiator = "''GC''"
               and opponent = "''GB''" and initiatorPoints = 1000000
               and opponentPoints = 1000000 and ttl = None
               and initiatorSigner = sample_signer,
             OF sample_simulate, THEN conjunct2, THEN conjunct1, rule_format,
             of "[sample_entry ''GB'' 0 None, sample_entry ''GA'' 0 None]"]
    by (simp add: sample_entry_def entry_address_def)
  show ?thesis
    using first none
    by (simp add: sample_env_def sample_entry_def signCallback_def show_nat.simps digit_char_def)
qed

text \<open>
  Claim C4. When the responder's address is the address in the artifact's credentials,
  \<open>importAndSignAuthEntry\<close> fails and has called neither the network nor a wallet: only
  the local parsing of the artifact came before. For an artifact that parses, the error
  is the self-play error.
\<close>

theorem importAndSignAuthEntry_self_play:
  assumes "fromXDR E artifactXdr = Some artifact"
    and "entry_address artifact = Some responder"
  shows "snd (importAndSignAuthEntry E artifactXdr responder points responderSigner ttl) = []
       \<and> (\<exists>err. fst (importAndSignAuthEntry E artifactXdr responder points responderSigner ttl)
                   = Inl err)
       \<and> ((\<exists>gp. parseAuthEntry E artifactXdr = Inr gp) \<longrightarrow>
            importAndSignAuthEntry E artifactXdr responder points responderSigner ttl
              = (Inl CannotPlayAgainstYourself, []))"
proof (cases "parseAuthEntry E artifactXdr")
  case (Inl err)
  then show ?thesis by (simp add: importAndSignAuthEntry_def)
next
  case (Inr gp)
  with assms have "gp_player1 gp = responder"
    by (auto simp: parseAuthEntry_def entry_address_def
             split: sorobanCredentials.splits hostFunction.splits if_splits scVal.splits)
  with Inr show ?thesis by (simp add: importAndSignAuthEntry_def)
qed

theorem importAndSignAuthEntry_self_play_witness:
  "importAndSignAuthEntry sample_env ''FRESH'' ''GA'' 1000000 sample_signer None
     = (Inl CannotPlayAgainstYourself, [])"
  using importAndSignAuthEntry_self_play
          [where E = sample_env and artifactXdr = "''FRESH''"
             and artifact = "sample_entry ''GA'' 100 (Some ''sigA'')" and responder = "''GA''"
             and points = 1000000 and responderSigner = sample_signer and ttl = None]
  by (simp add: sample_env_def sample_entry_def entry_address_def parseAuthEntry_def)

text \<open>
  Claim C1. For a well-formed artifact whose validity window has lapsed at the time of
  the merge, \<open>importAndSignAuthEntry\<close> fails, whatever the other fields of the artifact
  are; when the flow reaches the merge (the responder is not the initiator, the dry-run
  and the ledger query succeed) the error is \<open>HandshakeExpired\<close>. The visible body of
  \<open>importAndSignAuthEntry\<close> propagates the error of \<open>injectSignedAuthEntry\<close>, which is
  modelled from the specification.
\<close>

theorem importAndSignAuthEntry_expired:
  assumes "fromXDR E artifactXdr = Some artifact"
    and "parseAuthEntry E artifactXdr = Inr gp"
    and "lapsed E artifact"
  shows "(\<exists>err. fst (importAndSignAuthEntry E artifactXdr responder points responderSigner ttl)
                  = Inl err)
       \<and> (responder \<noteq> gp_player1 gp
           \<and> simulate E responder
                (StartGame (gp_sessionId gp) (gp_player1 gp) responder (gp_player1Points gp) points)
              = Inr tx
           \<and> calculateValidUntilLedger E
                (case ttl of None \<Rightarrow> MULTI_SIG_AUTH_TTL_MINUTES E | Some t \<Rightarrow> t) = Inr v
           \<longrightarrow> importAndSignAuthEntry E artifactXdr responder points responderSigner ttl
               = (Inl HandshakeExpired,
                  [Simulated (StartGame (gp_sessionId gp) (gp_player1 gp) responder
                                (gp_player1Points gp) points),
                   LedgerRead, Injected]))"
  using assms
  by (auto simp: importAndSignAuthEntry_def injectSignedAuthEntry_def Let_def split: sum.splits)

theorem importAndSignAuthEntry_expired_witness:
  "importAndSignAuthEntry sample_env ''LAPSED'' ''GB'' 1000000 sample_signer None
     = (Inl HandshakeExpired,
        [Simulated (StartGame 7 ''GA'' ''GB'' 1000000 1000000), LedgerRead, Injected])"
  using importAndSignAuthEntry_expired
          [where E = sample_env and artifactXdr = "''LAPSED''"
             and artifact = "sample_entry ''GA'' 40 (Some ''sigA'')"
             and gp = "\<lparr>gp_sessionId = 7, gp_player1 = ''GA'', gp_player1Points = 1000000,
                        gp_functionName = ''start_game''\<rparr>"
             and responder = "''GB''" and points = 1000000
             and tx = "\<lparr>invoked = StartGame 7 ''GA'' ''GB'' 1000000 1000000, publicKey = ''GB'',
                        simAuth = Some [sample_entry ''GB'' 0 None, sample_entry ''GA'' 0 None]\<rparr>"
             and ttl = None and v = 770 and responderSigner = sample_signer]
  by (simp add: sample_env_def sample_entry_def parseAuthEntry_def lapsed_def validUntil_def)

text \<open>
  Claim C6 (the code departs from it). The claim says that \<open>respondToAttack\<close> rejects a
  proof blob whose length is not 14592 before the transaction is sent. The copy of the
  service that logs every step only warns: on the sample environment a proof of 0 bytes
  is simulated, signed and submitted, and the call ends normally.
\<close>

theorem respondToAttack_logged_submits_short_proof:
  "respondToAttack_logged sample_env 7 ''GB'' 1 [] None =
     (Inr (), [Warned ''[respondToAttack] Expected 14592-byte proof, got 0'',
               Simulated (RespondToAttack 7 ''GB'' 1 []), LedgerRead,
               Submitted (RespondToAttack 7 ''GB'' 1 [])])"
  by (simp add: respondToAttack_logged_def respond_submit_def sample_env_def Let_def
        show_nat.simps digit_char_def)

text \<open>
  The other copy of \<open>respondToAttack\<close>, and \<open>commitBoard\<close>, reject a wrong length before
  any call.
\<close>

lemma respondToAttack_rejects_wrong_length:
  "length proofBlob \<noteq> 14592 \<Longrightarrow>
   respondToAttack E sessionId defender tileType proofBlob ttl
     = (Inl (ProofMustBe14592 (length proofBlob)), [])"
  by (simp add: respondToAttack_def)

lemma commitBoard_rejects_wrong_length:
  "length boardHash \<noteq> 32 \<Longrightarrow>
   commitBoard E sessionId player boardHash ttl = (Inl (BoardHashMustBe32 (length boardHash)), [])"
  by (simp add: commitBoard_def)

end
